theory Spec2Isabelle
  imports Complex_Main "HOL-Library.Multiset"
begin

section \<open>Data model\<close>

text \<open>
  The backtester of \<^verbatim>\<open>Backtester.py\<close>, embedded function by function. Python floats are
  modelled as \<^typ>\<open>real\<close>: rounding, infinities and NaN are not modelled. Python
  exceptions are values of \<open>error\<close>; a function that may raise returns \<open>error + 'a\<close>
  with \<open>Inl\<close> for the exception.
\<close>

datatype error = ZeroDivisionError | IndexError | ValueError | UnboundLocalError

text \<open>
  One row of the frame returned by \<^verbatim>\<open>MACD_Strategy.get_data\<close>, restricted to the
  columns that \<^verbatim>\<open>Backtester.add_data\<close> reads. The frame keeps its default integer
  index (\<^verbatim>\<open>df.set_index('dates')\<close> discards its result), so a label of the index is a
  position and a frame is the list of its rows.
\<close>

record bar =
  Close :: real
  EMA :: real
  Long_Position :: real

type_synonym DataFrame = "bar list"

text \<open>
  A \<^verbatim>\<open>MACD_Strategy\<close> object. \<^verbatim>\<open>get_data()\<close> fetches the bars from the brokerage; the
  frame it returns is a field here. Objects live in a store and lists hold references,
  because \<^verbatim>\<open>self.stocks\<close>, \<^verbatim>\<open>self.remove_stocks\<close> and the caller's list share them.
\<close>

record MACD_Strategy =
  symbol :: string
  ratio :: real
  stop_loss_percentage :: real
  winrate :: real
  get_data :: DataFrame

type_synonym ref = nat
type_synonym heap = "ref \<Rightarrow> MACD_Strategy"

record Backtester =
  stocks :: "ref list"
  profit_ratios :: "real list"
  stop_ratios :: "real list"
  optimal_profit_ratio :: "real list"
  optimal_risk_ratio :: "real list"
  winrates :: "real list"
  money_made :: "real list"
  remove_stocks :: "ref list"

text \<open>\<^verbatim>\<open>Backtester.__init__\<close> (lines 16-33).\<close>

definition Backtester_init :: "ref list \<Rightarrow> Backtester" where
  "Backtester_init stocks0 =
     \<lparr>stocks = stocks0,
      profit_ratios = [1.25, 1.5, 1.75, 2, 2.25, 2.5, 2.75, 3],
      stop_ratios = [0.95, 0.96, 0.97, 0.98, 0.99, 1],
      optimal_profit_ratio = [],
      optimal_risk_ratio = [],
      winrates = [],
      money_made = [],
      remove_stocks = []\<rparr>"

text \<open>The local variables of \<^verbatim>\<open>add_data\<close> that survive the grid loops (lines 66-67,
  100-103). The two ratios are unbound until the first replacement.\<close>

record search_state =
  greatest_accuracy :: real
  greatest_money :: real
  best_profit_ratio :: "real option"
  best_stop_ratio :: "real option"

section \<open>Python primitives\<close>

text \<open>\<^verbatim>\<open>for x in xs: body\<close>, where the body may raise: the loop stops at the first
  exception.\<close>

fun for_loop :: "'a list \<Rightarrow> ('a \<Rightarrow> 's \<Rightarrow> error + 's) \<Rightarrow> 's \<Rightarrow> error + 's" where
  "for_loop [] body s = Inr s"
| "for_loop (x # xs) body s =
     (case body x s of Inl e \<Rightarrow> Inl e | Inr s' \<Rightarrow> for_loop xs body s')"

text \<open>\<^verbatim>\<open>series.iloc[i]\<close> at a non-negative position.\<close>

definition iloc :: "'a list \<Rightarrow> nat \<Rightarrow> error + 'a" where
  "iloc xs i = (if i < length xs then Inr (xs ! i) else Inl IndexError)"

text \<open>\<^verbatim>\<open>xs[-1]\<close>.\<close>

definition py_last :: "'a list \<Rightarrow> error + 'a" where
  "py_last xs = (if xs = [] then Inl IndexError else Inr (last xs))"

text \<open>\<^verbatim>\<open>xs.pop(index)\<close>: a negative index counts from the end; the list after the pop.\<close>

definition py_pop :: "'a list \<Rightarrow> int \<Rightarrow> error + 'a list" where
  "py_pop xs index =
     (let n = int (length xs); j = (if index < 0 then index + n else index)
      in if 0 \<le> j \<and> j < n then Inr (take (nat j) xs @ drop (Suc (nat j)) xs)
         else Inl IndexError)"

text \<open>\<^verbatim>\<open>xs.remove(x)\<close>: removes the first occurrence, \<^verbatim>\<open>ValueError\<close> when there is none.
  The elements are references, compared by identity.\<close>

definition py_remove :: "'a list \<Rightarrow> 'a \<Rightarrow> error + 'a list" where
  "py_remove xs x = (if x \<in> set xs then Inr (remove1 x xs) else Inl ValueError)"

section \<open>The trade simulation (lines 74-96)\<close>

definition get_stop_loss :: "real \<Rightarrow> real \<Rightarrow> real" where
  "get_stop_loss r ema = r * ema"

definition get_take_profit :: "real \<Rightarrow> real \<Rightarrow> real" where
  "get_take_profit r stop_loss = r * stop_loss"

text \<open>
  The \<^verbatim>\<open>while moving_signal != len(stock_data)\<close> loop (lines 86-96), on the pair
  \<open>(current_wins, current_money)\<close>. The test is \<^verbatim>\<open>!=\<close>, so a position past the end
  would reach \<^verbatim>\<open>.iloc\<close> out of range.
\<close>

function walk :: "DataFrame \<Rightarrow> real \<Rightarrow> real \<Rightarrow> real \<Rightarrow> nat \<Rightarrow> nat \<times> real \<Rightarrow> error + nat \<times> real" where
  "walk stock_data take_profit stop_loss money_lost moving_signal (current_wins, current_money) =
     (if moving_signal = length stock_data then Inr (current_wins, current_money)
      else if length stock_data < moving_signal then Inl IndexError
      else if Close (stock_data ! moving_signal) \<ge> take_profit
        then Inr (current_wins + 1, current_money + take_profit)
      else if Close (stock_data ! moving_signal) \<le> stop_loss
        then Inr (current_wins, current_money - money_lost)
      else walk stock_data take_profit stop_loss money_lost (moving_signal + 1)
             (current_wins, current_money))"
  by pat_completeness auto
termination
  by (relation "measure (\<lambda>(d, tp, sl, ml, t, acc). length d - t)") auto

text \<open>The body of \<^verbatim>\<open>for signal in signals\<close> (lines 75-96).\<close>

definition simulate_signal ::
  "DataFrame \<Rightarrow> real \<Rightarrow> real \<Rightarrow> nat \<Rightarrow> nat \<times> real \<Rightarrow> error + nat \<times> real" where
  "simulate_signal stock_data stop profit signal acc =
     (case iloc stock_data signal of
        Inl e \<Rightarrow> Inl e
      | Inr row \<Rightarrow>
          (let stop_loss = get_stop_loss stop (EMA row);
               money_lost = Close row - stop_loss;
               take_profit = get_take_profit profit stop_loss
           in walk stock_data take_profit stop_loss money_lost signal acc))"

section \<open>The grid search (lines 62-111)\<close>

text \<open>\<^verbatim>\<open>stock_data.loc[stock_data['Long_Position'] == 1].index\<close> (line 63).\<close>

definition signals_of :: "DataFrame \<Rightarrow> nat list" where
  "signals_of stock_data =
     filter (\<lambda>i. Long_Position (stock_data ! i) = 1) [0..<length stock_data]"

text \<open>Lines 72-98: the wins and the money of one pair of ratios, then the accuracy.
  \<^verbatim>\<open>current_wins / len(signals)\<close> divides two Python ints.\<close>

definition trial_result ::
  "DataFrame \<Rightarrow> nat list \<Rightarrow> real \<Rightarrow> real \<Rightarrow> error + real \<times> real" where
  "trial_result stock_data signals stop profit =
     (case for_loop signals (simulate_signal stock_data stop profit) (0, 0) of
        Inl e \<Rightarrow> Inl e
      | Inr (current_wins, current_money) \<Rightarrow>
          if length signals = 0 then Inl ZeroDivisionError
          else Inr (real current_wins / real (length signals), current_money))"

text \<open>Lines 99-103.\<close>

definition select :: "search_state \<Rightarrow> real \<Rightarrow> real \<Rightarrow> real \<times> real \<Rightarrow> search_state" where
  "select b stop profit r =
     (case r of (accuracy, current_money) \<Rightarrow>
        if accuracy > greatest_accuracy b \<or> current_money \<ge> greatest_money b
        then \<lparr>greatest_accuracy = accuracy,
              greatest_money = current_money,
              best_profit_ratio = Some profit,
              best_stop_ratio = Some stop\<rparr>
        else b)"

text \<open>The body of \<^verbatim>\<open>for profit in self.profit_ratios\<close> (lines 72-103).\<close>

definition trial ::
  "DataFrame \<Rightarrow> nat list \<Rightarrow> real \<Rightarrow> real \<Rightarrow> search_state \<Rightarrow> error + search_state" where
  "trial stock_data signals stop profit b =
     (case trial_result stock_data signals stop profit of
        Inl e \<Rightarrow> Inl e
      | Inr r \<Rightarrow> Inr (select b stop profit r))"

text \<open>Lines 66-103: the two nested loops from the initial best values.\<close>

definition grid_search ::
  "DataFrame \<Rightarrow> nat list \<Rightarrow> real list \<Rightarrow> real list \<Rightarrow> search_state \<Rightarrow> error + search_state" where
  "grid_search stock_data signals stop_rs profit_rs b =
     for_loop stop_rs
       (\<lambda>stop. for_loop profit_rs (\<lambda>profit. trial stock_data signals stop profit)) b"

definition initial_best :: search_state where
  "initial_best =
     \<lparr>greatest_accuracy = 0, greatest_money = 0,
      best_profit_ratio = None, best_stop_ratio = None\<rparr>"

text \<open>Lines 104-110. Reading an unbound local raises \<^verbatim>\<open>UnboundLocalError\<close>.\<close>

definition record_outcome :: "Backtester \<Rightarrow> ref \<Rightarrow> search_state \<Rightarrow> error + Backtester" where
  "record_outcome self stock b =
     (if greatest_accuracy b \<noteq> 0 then
        (case (best_profit_ratio b, best_stop_ratio b) of
           (Some p, Some s) \<Rightarrow>
             Inr (self\<lparr>optimal_profit_ratio := optimal_profit_ratio self @ [p],
                       optimal_risk_ratio := optimal_risk_ratio self @ [s],
                       winrates := winrates self @ [greatest_accuracy b],
                       money_made := money_made self @ [greatest_money b]\<rparr>)
         | _ \<Rightarrow> Inl UnboundLocalError)
      else Inr (self\<lparr>remove_stocks := remove_stocks self @ [stock]\<rparr>))"

text \<open>\<^verbatim>\<open>Backtester.add_data\<close> (lines 55-111).\<close>

definition add_data :: "heap \<Rightarrow> Backtester \<Rightarrow> ref \<Rightarrow> error + Backtester" where
  "add_data h self stock =
     (let stock_data = get_data (h stock);
          signals = signals_of stock_data
      in case grid_search stock_data signals (stop_ratios self) (profit_ratios self) initial_best of
           Inl e \<Rightarrow> Inl e
         | Inr b \<Rightarrow> record_outcome self stock b)"

section \<open>The operations on the tracked instruments\<close>

text \<open>\<^verbatim>\<open>Backtester.execute\<close> (lines 36-53).\<close>

definition execute :: "heap \<Rightarrow> Backtester \<Rightarrow> error + Backtester" where
  "execute h self =
     (let self1 = self\<lparr>optimal_profit_ratio := [], optimal_risk_ratio := [],
                       winrates := [], money_made := [], remove_stocks := []\<rparr>
      in case for_loop (stocks self1) (\<lambda>stock s. add_data h s stock) self1 of
           Inl e \<Rightarrow> Inl e
         | Inr self2 \<Rightarrow>
             for_loop (remove_stocks self2)
               (\<lambda>remove s. case py_remove (stocks s) remove of
                              Inl e \<Rightarrow> Inl e
                            | Inr xs \<Rightarrow> Inr (s\<lparr>stocks := xs\<rparr>)) self2)"

text \<open>\<^verbatim>\<open>MACD_Strategy.set_profit_ratio\<close>, \<^verbatim>\<open>set_stop_loss_ratio\<close>, \<^verbatim>\<open>set_winrate\<close>
  (\<^verbatim>\<open>MACDStrategy.py\<close> lines 165-202), on the object a reference points to.\<close>

definition set_profit_ratio :: "heap \<Rightarrow> ref \<Rightarrow> real \<Rightarrow> heap" where
  "set_profit_ratio h r x = h(r := (h r)\<lparr>ratio := x\<rparr>)"

definition set_stop_loss_ratio :: "heap \<Rightarrow> ref \<Rightarrow> real \<Rightarrow> heap" where
  "set_stop_loss_ratio h r x = h(r := (h r)\<lparr>stop_loss_percentage := x\<rparr>)"

definition set_winrate :: "heap \<Rightarrow> ref \<Rightarrow> real \<Rightarrow> heap" where
  "set_winrate h r x = h(r := (h r)\<lparr>winrate := x\<rparr>)"

text \<open>One line \<^verbatim>\<open>self.stocks[-1].set_x(values[-1])\<close>: the receiver is evaluated before
  the argument.\<close>

definition apply_last ::
  "(heap \<Rightarrow> ref \<Rightarrow> real \<Rightarrow> heap) \<Rightarrow> ref list \<Rightarrow> real list \<Rightarrow> heap \<Rightarrow> error + heap" where
  "apply_last setter objs values h =
     (case py_last objs of
        Inl e \<Rightarrow> Inl e
      | Inr obj \<Rightarrow>
          (case py_last values of
             Inl e \<Rightarrow> Inl e
           | Inr v \<Rightarrow> Inr (setter h obj v)))"

text \<open>\<^verbatim>\<open>Backtester.add_stock\<close> (lines 158-169). It does not touch \<^verbatim>\<open>self.stocks\<close>: its
  caller \<^verbatim>\<open>StockContainer.add_stock\<close> has appended the new object to the list that
  \<^verbatim>\<open>self.stocks\<close> aliases before the call.\<close>

definition add_stock :: "heap \<Rightarrow> Backtester \<Rightarrow> ref \<Rightarrow> error + heap \<times> Backtester" where
  "add_stock h self stock =
     (case add_data h self stock of
        Inl e \<Rightarrow> Inl e
      | Inr self' \<Rightarrow>
          (case apply_last set_profit_ratio (stocks self') (optimal_profit_ratio self') h of
             Inl e \<Rightarrow> Inl e
           | Inr h1 \<Rightarrow>
               (case apply_last set_stop_loss_ratio (stocks self') (optimal_risk_ratio self') h1 of
                  Inl e \<Rightarrow> Inl e
                | Inr h2 \<Rightarrow>
                    (case apply_last set_winrate (stocks self') (winrates self') h2 of
                       Inl e \<Rightarrow> Inl e
                     | Inr h3 \<Rightarrow> Inr (h3, self')))))"

text \<open>\<^verbatim>\<open>Backtester.remove_stock\<close> (lines 171-182): four pops, in this order.\<close>

definition remove_stock :: "Backtester \<Rightarrow> int \<Rightarrow> error + Backtester" where
  "remove_stock self index =
     (case py_pop (winrates self) index of
        Inl e \<Rightarrow> Inl e
      | Inr w \<Rightarrow>
          (case py_pop (optimal_profit_ratio self) index of
             Inl e \<Rightarrow> Inl e
           | Inr p \<Rightarrow>
               (case py_pop (optimal_risk_ratio self) index of
                  Inl e \<Rightarrow> Inl e
                | Inr r \<Rightarrow>
                    (case py_pop (money_made self) index of
                       Inl e \<Rightarrow> Inl e
                     | Inr m \<Rightarrow>
                         Inr (self\<lparr>winrates := w, optimal_profit_ratio := p,
                                   optimal_risk_ratio := r, money_made := m\<rparr>)))))"

text \<open>Lines 65-66 of \<^verbatim>\<open>StockContainer.add_stock\<close>, with the new object at \<open>stock\<close> in
  the store: \<^verbatim>\<open>self.MACD_objects\<close> is the list the backtester was constructed with, so the
  append is an append to \<^verbatim>\<open>self.stocks\<close> of the backtester.\<close>

definition container_add_stock :: "heap \<Rightarrow> Backtester \<Rightarrow> ref \<Rightarrow> error + heap \<times> Backtester" where
  "container_add_stock h self stock = add_stock h (self\<lparr>stocks := stocks self @ [stock]\<rparr>) stock"

text \<open>A call of one of the three operations, and a sequence of calls.\<close>

datatype call = AddStock ref | RemoveStock int | Execute

fun do_call :: "call \<Rightarrow> heap \<times> Backtester \<Rightarrow> error + heap \<times> Backtester" where
  "do_call (AddStock stock) (h, self) = add_stock h self stock"
| "do_call (RemoveStock index) (h, self) =
     (case remove_stock self index of Inl e \<Rightarrow> Inl e | Inr self' \<Rightarrow> Inr (h, self'))"
| "do_call Execute (h, self) =
     (case execute h self of Inl e \<Rightarrow> Inl e | Inr self' \<Rightarrow> Inr (h, self'))"

definition run_calls :: "call list \<Rightarrow> heap \<times> Backtester \<Rightarrow> error + heap \<times> Backtester" where
  "run_calls calls st = for_loop calls do_call st"

section \<open>Predicates used in the statements\<close>

text \<open>The invariant of the grid loops behind line 104: once the best accuracy is not
  zero, both best ratios have been assigned.\<close>

definition ratios_bound :: "search_state \<Rightarrow> bool" where
  "ratios_bound b = (greatest_accuracy b = 0 \<or> (best_profit_ratio b \<noteq> None \<and> best_stop_ratio b \<noteq> None))"

text \<open>The four outcome lists have the same length.\<close>

definition outcomes_aligned :: "Backtester \<Rightarrow> bool" where
  "outcomes_aligned self =
     (length (optimal_profit_ratio self) = length (winrates self)
      \<and> length (optimal_risk_ratio self) = length (winrates self)
      \<and> length (money_made self) = length (winrates self))"

text \<open>The ratio lists are the ones \<^verbatim>\<open>__init__\<close> sets; no method assigns them again.\<close>

definition has_init_grid :: "Backtester \<Rightarrow> bool" where
  "has_init_grid self =
     (stop_ratios self = stop_ratios (Backtester_init [])
      \<and> profit_ratios self = profit_ratios (Backtester_init []))"

section \<open>Example data\<close>

text \<open>\<^verbatim>\<open>MACD_Strategy.__init__\<close> (\<^verbatim>\<open>MACDStrategy.py\<close> lines 20-34), with the frame that
  \<^verbatim>\<open>get_data\<close> will return.\<close>

definition MACD_Strategy_init :: "string \<Rightarrow> DataFrame \<Rightarrow> MACD_Strategy" where
  "MACD_Strategy_init name frame =
     \<lparr>symbol = name, ratio = 1.5, stop_loss_percentage = 0.95, winrate = 1, get_data = frame\<rparr>"

text \<open>Small frames: a signal that wins at once for every pair of the grid, one that never
  resolves, a frame with no signal, one with a winning and an unresolved signal, one whose
  signal resolves two steps later, and one whose signal row is already below the stop.\<close>

definition frame_win :: DataFrame where
  "frame_win = [\<lparr>Close = 100, EMA = 100, Long_Position = 0\<rparr>,
                \<lparr>Close = 300, EMA = 100, Long_Position = 1\<rparr>]"

definition frame_unresolved :: DataFrame where
  "frame_unresolved = [\<lparr>Close = 100, EMA = 100, Long_Position = 0\<rparr>,
                       \<lparr>Close = 102, EMA = 100, Long_Position = 1\<rparr>]"

definition frame_no_signal :: DataFrame where
  "frame_no_signal = [\<lparr>Close = 100, EMA = 100, Long_Position = 0\<rparr>,
                      \<lparr>Close = 101, EMA = 100, Long_Position = 0\<rparr>]"

definition frame_mixed :: DataFrame where
  "frame_mixed = [\<lparr>Close = 100, EMA = 100, Long_Position = 0\<rparr>,
                  \<lparr>Close = 300, EMA = 100, Long_Position = 1\<rparr>,
                  \<lparr>Close = 102, EMA = 100, Long_Position = 1\<rparr>]"

definition frame_late :: DataFrame where
  "frame_late = [\<lparr>Close = 100, EMA = 100, Long_Position = 0\<rparr>,
                 \<lparr>Close = 102, EMA = 100, Long_Position = 1\<rparr>,
                 \<lparr>Close = 103, EMA = 100, Long_Position = 0\<rparr>,
                 \<lparr>Close = 130, EMA = 101, Long_Position = 0\<rparr>]"

definition frame_drop :: DataFrame where
  "frame_drop = [\<lparr>Close = 100, EMA = 100, Long_Position = 0\<rparr>,
                 \<lparr>Close = 90, EMA = 100, Long_Position = 1\<rparr>]"

definition example_heap :: heap where
  "example_heap r =
     (if r = 0 then MACD_Strategy_init ''AAPL'' frame_win
      else if r = 1 then MACD_Strategy_init ''TSLA'' frame_unresolved
      else MACD_Strategy_init ''MSFT'' frame_no_signal)"

text \<open>The backtester after \<^verbatim>\<open>execute\<close> on the first example instrument alone.\<close>

definition after_execute :: Backtester where
  "after_execute =
     (Backtester_init [0])\<lparr>optimal_profit_ratio := [3], optimal_risk_ratio := [1],
                             winrates := [1], money_made := [300]\<rparr>"

section \<open>Loops\<close>

declare walk.simps [simp del]

lemma for_loop_append:
  "for_loop (xs @ ys) body s =
     (case for_loop xs body s of Inl e \<Rightarrow> Inl e | Inr s' \<Rightarrow> for_loop ys body s')"
  by (induction xs arbitrary: s) (auto split: sum.splits)

lemma for_loop_map: "for_loop (map g ys) body s = for_loop ys (\<lambda>y. body (g y)) s"
  by (induction ys arbitrary: s) (auto split: sum.splits)

lemma for_loop_product:
  "for_loop xs (\<lambda>x. for_loop ys (f x)) s = for_loop (List.product xs ys) (\<lambda>(x, y). f x y) s"
  by (induction xs arbitrary: s) (auto simp: for_loop_append for_loop_map split: sum.splits)

lemma for_loop_invariant:
  assumes "for_loop xs body s = Inr s'" and "P s"
    and "\<And>x a a'. x \<in> set xs \<Longrightarrow> P a \<Longrightarrow> body x a = Inr a' \<Longrightarrow> P a'"
  shows "P s'"
  using assms
proof (induction xs arbitrary: s)
  case Nil
  then show ?case by simp
next
  case (Cons x xs)
  from Cons.prems(1) obtain a where a: "body x s = Inr a" and rest: "for_loop xs body a = Inr s'"
    by (auto split: sum.splits)
  have "P a" using Cons.prems(2,3) a by auto
  then show ?case using Cons.IH [OF rest] Cons.prems(3) by auto
qed

lemma walk_skip:
  assumes "signal \<le> t" and "t \<le> length d"
    and "\<forall>k. signal \<le> k \<and> k < t \<longrightarrow> \<not> tp \<le> Close (d ! k) \<and> \<not> Close (d ! k) \<le> sl"
  shows "walk d tp sl ml signal (w, m) = walk d tp sl ml t (w, m)"
  using assms
proof (induction "t - signal" arbitrary: signal)
  case 0
  then show ?case by simp
next
  case (Suc n)
  then have lt: "signal < t" by simp
  with Suc.prems have und: "\<not> tp \<le> Close (d ! signal)" "\<not> Close (d ! signal) \<le> sl"
    by auto
  have step: "walk d tp sl ml signal (w, m) = walk d tp sl ml (signal + 1) (w, m)"
    using lt Suc.prems(2) und by (subst walk.simps) simp
  have "walk d tp sl ml (signal + 1) (w, m) = walk d tp sl ml t (w, m)"
    using Suc.hyps Suc.prems lt by (intro Suc.hyps(1)) auto
  with step show ?case by simp
qed

lemma walk_returns:
  "t \<le> length d \<Longrightarrow>
     \<exists>w' m'. walk d tp sl ml t (w, m) = Inr (w', m') \<and> w \<le> w' \<and> w' \<le> w + 1"
proof (induction "length d - t" arbitrary: t)
  case 0
  then have "t = length d" by simp
  then show ?case by (subst walk.simps) simp
next
  case (Suc n)
  then have lt: "t < length d" by simp
  have "\<exists>w' m'. walk d tp sl ml (t + 1) (w, m) = Inr (w', m') \<and> w \<le> w' \<and> w' \<le> w + 1"
    using Suc.hyps lt by (intro Suc.hyps(1)) auto
  then show ?case using lt by (subst walk.simps) auto
qed

lemma simulate_signal_unfold:
  "signal < length d \<Longrightarrow>
   simulate_signal d stop profit signal acc =
     walk d (profit * (stop * EMA (d ! signal))) (stop * EMA (d ! signal))
       (Close (d ! signal) - stop * EMA (d ! signal)) signal acc"
  by (simp add: simulate_signal_def iloc_def get_stop_loss_def get_take_profit_def Let_def)

lemma simulate_signal_returns:
  "signal < length d \<Longrightarrow>
     \<exists>w' m'. simulate_signal d stop profit signal (w, m) = Inr (w', m') \<and> w \<le> w' \<and> w' \<le> w + 1"
  using walk_returns [of signal d] by (simp add: simulate_signal_unfold)

lemma signal_loop_returns:
  "\<forall>s \<in> set sigs. s < length d \<Longrightarrow>
     \<exists>w' m'. for_loop sigs (simulate_signal d stop profit) (w, m) = Inr (w', m')
        \<and> w \<le> w' \<and> w' \<le> w + length sigs"
proof (induction sigs arbitrary: w m)
  case Nil
  then show ?case by simp
next
  case (Cons s sigs)
  then have "s < length d" by simp
  from simulate_signal_returns [OF this, of stop profit w m]
  obtain w1 m1 where 1: "simulate_signal d stop profit s (w, m) = Inr (w1, m1)"
    and b1: "w \<le> w1" "w1 \<le> w + 1" by blast
  from Cons.IH [of w1 m1] Cons.prems
  obtain w2 m2 where 2: "for_loop sigs (simulate_signal d stop profit) (w1, m1) = Inr (w2, m2)"
    and b2: "w1 \<le> w2" "w2 \<le> w1 + length sigs" by auto
  show ?case using 1 2 b1 b2 by simp
qed

lemma signals_of_in_range: "\<forall>s \<in> set (signals_of d). s < length d"
  by (simp add: signals_of_def)

lemma trial_result_returns:
  assumes "\<forall>s \<in> set sigs. s < length d" and "sigs \<noteq> []"
  shows "\<exists>accuracy money. trial_result d sigs stop profit = Inr (accuracy, money)
           \<and> 0 \<le> accuracy \<and> accuracy \<le> 1"
proof -
  from signal_loop_returns [OF assms(1), of stop profit 0 0]
  obtain w' m' where l: "for_loop sigs (simulate_signal d stop profit) (0, 0) = Inr (w', m')"
    and b: "w' \<le> length sigs" by auto
  have pos: "0 < length sigs" using assms(2) by simp
  have "real w' / real (length sigs) \<le> 1" using b pos by simp
  then show ?thesis using l pos by (simp add: trial_result_def)
qed

lemma trial_ratios_bound:
  "ratios_bound b \<Longrightarrow> trial d sigs stop profit b = Inr b' \<Longrightarrow> ratios_bound b'"
  by (auto simp: trial_def select_def ratios_bound_def split: sum.splits if_splits prod.splits)

lemma grid_search_ratios_bound:
  assumes "grid_search d sigs stop_rs profit_rs b = Inr b'" and "ratios_bound b"
  shows "ratios_bound b'"
proof -
  have inner: "ratios_bound a'"
    if "ratios_bound a" and "for_loop profit_rs (\<lambda>profit. trial d sigs stop profit) a = Inr a'"
    for stop a a'
    using that(2,1) by (rule for_loop_invariant) (auto dest: trial_ratios_bound)
  show ?thesis
    using assms unfolding grid_search_def
    by (rule for_loop_invariant) (auto dest: inner)
qed

lemma trial_no_win:
  "greatest_accuracy b = 0 \<Longrightarrow> trial d sigs stop profit b = Inr b'
     \<Longrightarrow> (\<And>accuracy money. trial_result d sigs stop profit = Inr (accuracy, money) \<Longrightarrow> accuracy = 0)
     \<Longrightarrow> greatest_accuracy b' = 0"
  by (auto simp: trial_def select_def split: sum.splits if_splits prod.splits)

lemma grid_search_no_win:
  assumes "grid_search d sigs stop_rs profit_rs b = Inr b'" and "greatest_accuracy b = 0"
    and nowin: "\<And>stop profit accuracy money. stop \<in> set stop_rs \<Longrightarrow> profit \<in> set profit_rs \<Longrightarrow>
            trial_result d sigs stop profit = Inr (accuracy, money) \<Longrightarrow> accuracy = 0"
  shows "greatest_accuracy b' = 0"
proof -
  have inner: "greatest_accuracy a' = 0"
    if "greatest_accuracy a = 0" and "stop \<in> set stop_rs"
      and "for_loop profit_rs (\<lambda>profit. trial d sigs stop profit) a = Inr a'"
    for stop a a'
    using that(3,1)
  proof (rule for_loop_invariant)
    fix x c c'
    assume "x \<in> set profit_rs" "greatest_accuracy c = 0" "trial d sigs stop x c = Inr c'"
    then show "greatest_accuracy c' = 0"
      using nowin [OF that(2)] by (auto intro: trial_no_win)
  qed
  show ?thesis
    using assms(1,2) unfolding grid_search_def
    by (rule for_loop_invariant) (auto dest: inner)
qed

lemma add_data_unfold:
  "add_data h self stock =
     (case grid_search (get_data (h stock)) (signals_of (get_data (h stock)))
             (stop_ratios self) (profit_ratios self) initial_best of
        Inl e \<Rightarrow> Inl e | Inr b \<Rightarrow> record_outcome self stock b)"
  by (simp add: add_data_def Let_def)

lemma ratios_bound_initial: "ratios_bound initial_best"
  by (simp add: ratios_bound_def initial_best_def)

lemma add_data_cases:
  assumes "add_data h self stock = Inr self'"
  shows "(\<exists>p s a m. self' = self\<lparr>optimal_profit_ratio := optimal_profit_ratio self @ [p],
                                  optimal_risk_ratio := optimal_risk_ratio self @ [s],
                                  winrates := winrates self @ [a],
                                  money_made := money_made self @ [m]\<rparr>)
       \<or> self' = self\<lparr>remove_stocks := remove_stocks self @ [stock]\<rparr>"
  using assms
  by (auto simp: add_data_unfold record_outcome_def split: sum.splits if_splits option.splits)

lemmas eval_defs = trial_def trial_result_def simulate_signal_def iloc_def get_stop_loss_def
  get_take_profit_def select_def initial_best_def Let_def walk.simps

lemma signals_frame_win: "signals_of frame_win = [1]"
  by (simp add: signals_of_def frame_win_def upt_rec)

lemma signals_frame_unresolved: "signals_of frame_unresolved = [1]"
  by (simp add: signals_of_def frame_unresolved_def upt_rec)

lemma signals_frame_no_signal: "signals_of frame_no_signal = []"
  by (simp add: signals_of_def frame_no_signal_def upt_rec)

lemma signals_frame_mixed: "signals_of frame_mixed = [1, 2]"
  by (simp add: signals_of_def frame_mixed_def upt_rec)

lemma grid_frame_win:
  "grid_search (get_data (example_heap 0)) (signals_of (get_data (example_heap 0)))
     (stop_ratios (Backtester_init [])) (profit_ratios (Backtester_init [])) initial_best =
   Inr \<lparr>greatest_accuracy = 1, greatest_money = 300,
        best_profit_ratio = Some 3, best_stop_ratio = Some 1\<rparr>"
proof -
  have d: "get_data (example_heap 0) = frame_win"
    by (simp add: example_heap_def MACD_Strategy_init_def)
  show ?thesis
    unfolding d signals_frame_win
    by (simp add: Backtester_init_def grid_search_def frame_win_def eval_defs)
qed

lemma grid_frame_unresolved:
  "grid_search (get_data (example_heap 1)) (signals_of (get_data (example_heap 1)))
     (stop_ratios (Backtester_init [])) (profit_ratios (Backtester_init [])) initial_best =
   Inr \<lparr>greatest_accuracy = 0, greatest_money = 0,
        best_profit_ratio = Some 3, best_stop_ratio = Some 1\<rparr>"
proof -
  have d: "get_data (example_heap 1) = frame_unresolved"
    by (simp add: example_heap_def MACD_Strategy_init_def)
  show ?thesis
    unfolding d signals_frame_unresolved
    by (simp add: Backtester_init_def grid_search_def frame_unresolved_def eval_defs)
qed

lemma add_data_win:
  assumes "has_init_grid self"
  shows "add_data example_heap self 0 =
     Inr (self\<lparr>optimal_profit_ratio := optimal_profit_ratio self @ [3],
               optimal_risk_ratio := optimal_risk_ratio self @ [1],
               winrates := winrates self @ [1],
               money_made := money_made self @ [300]\<rparr>)"
proof -
  have "add_data example_heap self 0 =
      record_outcome self 0 \<lparr>greatest_accuracy = 1, greatest_money = 300,
        best_profit_ratio = Some 3, best_stop_ratio = Some 1\<rparr>"
    using assms unfolding has_init_grid_def add_data_unfold
    by (simp only: grid_frame_win sum.case)
  then show ?thesis by (simp add: record_outcome_def)
qed

lemma add_data_unresolved:
  assumes "has_init_grid self"
  shows "add_data example_heap self 1 = Inr (self\<lparr>remove_stocks := remove_stocks self @ [1]\<rparr>)"
proof -
  have "add_data example_heap self 1 =
      record_outcome self 1 \<lparr>greatest_accuracy = 0, greatest_money = 0,
        best_profit_ratio = Some 3, best_stop_ratio = Some 1\<rparr>"
    using assms unfolding has_init_grid_def add_data_unfold
    by (simp only: grid_frame_unresolved sum.case)
  then show ?thesis by (simp add: record_outcome_def)
qed

lemma has_init_grid_init: "has_init_grid (Backtester_init xs)"
  by (simp add: has_init_grid_def Backtester_init_def)

lemma trial_result_frame_win:
  "trial_result frame_win [1] 0.95 1.25 = Inr (1, 118.75)"
  by (simp add: frame_win_def eval_defs)

section \<open>The selection rule of the grid search\<close>

text \<open>
  Claim C1. The two nested loops of \<^verbatim>\<open>add_data\<close> visit the cross-product of the stop
  ratios (outer, in listed order) and the profit ratios (inner, in listed order). A trial
  with accuracy \<open>accuracy\<close> and money \<open>money\<close> replaces the running best exactly when
  \<open>accuracy > greatest_accuracy\<close> or \<open>money \<ge> greatest_money\<close>, and then all four best
  values are set together; otherwise the running best is kept.
\<close>

theorem grid_search_selection_rule:
  "grid_search d sigs stop_rs profit_rs b =
     for_loop (List.product stop_rs profit_rs) (\<lambda>(stop, profit). trial d sigs stop profit) b
   \<and> (trial_result d sigs stop profit = Inr (accuracy, money) \<longrightarrow>
        trial d sigs stop profit b =
          Inr (if accuracy > greatest_accuracy b \<or> money \<ge> greatest_money b
               then \<lparr>greatest_accuracy = accuracy, greatest_money = money,
                     best_profit_ratio = Some profit, best_stop_ratio = Some stop\<rparr>
               else b))"
proof
  show "grid_search d sigs stop_rs profit_rs b =
     for_loop (List.product stop_rs profit_rs) (\<lambda>(stop, profit). trial d sigs stop profit) b"
    unfolding grid_search_def by (rule for_loop_product)
next
  show "trial_result d sigs stop profit = Inr (accuracy, money) \<longrightarrow>
        trial d sigs stop profit b =
          Inr (if accuracy > greatest_accuracy b \<or> money \<ge> greatest_money b
               then \<lparr>greatest_accuracy = accuracy, greatest_money = money,
                     best_profit_ratio = Some profit, best_stop_ratio = Some stop\<rparr>
               else b)"
    by (simp add: trial_def select_def)
qed

theorem grid_search_selection_rule_witness:
  "trial_result frame_win [1] 0.95 1.25 = Inr (1, 118.75)
   \<and> trial frame_win [1] 0.95 1.25 initial_best =
       Inr \<lparr>greatest_accuracy = 1, greatest_money = 118.75,
            best_profit_ratio = Some 1.25, best_stop_ratio = Some 0.95\<rparr>
   \<and> grid_search frame_win [1] [0.95, 1] [1.25, 3] initial_best =
       for_loop [(0.95, 1.25), (0.95, 3), (1, 1.25), (1, 3)]
         (\<lambda>(stop, profit). trial frame_win [1] stop profit) initial_best"
proof -
  note r = grid_search_selection_rule [of frame_win "[1]" "[0.95, 1]" "[1.25, 3]" initial_best
      "0.95" "1.25" 1 "118.75"]
  have "trial frame_win [1] 0.95 1.25 initial_best =
       Inr \<lparr>greatest_accuracy = 1, greatest_money = 118.75,
            best_profit_ratio = Some 1.25, best_stop_ratio = Some 0.95\<rparr>"
    using r trial_result_frame_win by (simp add: initial_best_def)
  moreover have "grid_search frame_win [1] [0.95, 1] [1.25, 3] initial_best =
       for_loop [(0.95, 1.25), (0.95, 3), (1, 1.25), (1, 3)]
         (\<lambda>(stop, profit). trial frame_win [1] stop profit) initial_best"
    using r by simp
  ultimately show ?thesis using trial_result_frame_win by simp
qed

section \<open>The forward walk of one signal\<close>

text \<open>
  Claim C2. With \<open>sl = stop * EMA[signal]\<close> and \<open>tp = profit * sl\<close>, at every step \<open>t\<close>
  that the walk of a signal reaches (no earlier step from the signal on met either
  level): if \<open>Close[t] \<ge> tp\<close> the signal is a win and adds \<open>tp\<close> to the money; otherwise
  if \<open>Close[t] \<le> sl\<close> it is a loss and subtracts \<open>Close[signal] - sl\<close>; otherwise the
  walk goes on from \<open>t + 1\<close>.
\<close>

theorem simulate_signal_step:
  assumes "signal \<le> t" and "t < length d"
    and "sl = stop * EMA (d ! signal)" and "tp = profit * sl"
    and "\<forall>k. signal \<le> k \<and> k < t \<longrightarrow> \<not> Close (d ! k) \<ge> tp \<and> \<not> Close (d ! k) \<le> sl"
  shows "simulate_signal d stop profit signal (w, m) =
     (if Close (d ! t) \<ge> tp then Inr (w + 1, m + tp)
      else if Close (d ! t) \<le> sl then Inr (w, m - (Close (d ! signal) - sl))
      else walk d tp sl (Close (d ! signal) - sl) (t + 1) (w, m))"
proof -
  have "signal < length d" using assms(1,2) by simp
  then have "simulate_signal d stop profit signal (w, m) =
      walk d tp sl (Close (d ! signal) - sl) signal (w, m)"
    using assms(3,4) by (simp add: simulate_signal_unfold)
  also have "\<dots> = walk d tp sl (Close (d ! signal) - sl) t (w, m)"
    using assms(1,2,5) by (intro walk_skip) auto
  also have "\<dots> = (if Close (d ! t) \<ge> tp then Inr (w + 1, m + tp)
      else if Close (d ! t) \<le> sl then Inr (w, m - (Close (d ! signal) - sl))
      else walk d tp sl (Close (d ! signal) - sl) (t + 1) (w, m))"
    using assms(2) by (subst walk.simps) simp
  finally show ?thesis .
qed

theorem simulate_signal_step_witness:
  "simulate_signal frame_late 0.95 1.25 1 (0, 0) = Inr (1, 118.75)"
proof -
  have "\<forall>k. (1::nat) \<le> k \<and> k < 3 \<longrightarrow>
          \<not> Close (frame_late ! k) \<ge> 118.75 \<and> \<not> Close (frame_late ! k) \<le> 95"
  proof (intro allI impI)
    fix k :: nat
    assume "1 \<le> k \<and> k < 3"
    then have "k = 1 \<or> k = 2" by auto
    then show "\<not> Close (frame_late ! k) \<ge> 118.75 \<and> \<not> Close (frame_late ! k) \<le> 95"
      by (auto simp: frame_late_def)
  qed
  from simulate_signal_step [of 1 3 frame_late 95 "0.95" "118.75" "1.25" 0 0, OF _ _ _ _ this]
  show ?thesis by (simp add: frame_late_def)
qed

text \<open>
  Claim C10. The walk starts at the signal's own row: a signal whose close is already at
  or above the target is a win that adds the target, and one whose close is below the
  target and at or below the stop is a loss, whatever the later rows are. The simulation
  of a signal of the frame returns, and so does the walk from every position up to the
  length of the frame (the position grows by one until it equals the length).
\<close>

theorem walk_starts_at_signal:
  assumes "signal < length d"
    and "sl = stop * EMA (d ! signal)" and "tp = profit * sl"
  shows "(Close (d ! signal) \<ge> tp \<longrightarrow>
            simulate_signal d stop profit signal (w, m) = Inr (w + 1, m + tp))
     \<and> (\<not> Close (d ! signal) \<ge> tp \<and> Close (d ! signal) \<le> sl \<longrightarrow>
            simulate_signal d stop profit signal (w, m) = Inr (w, m - (Close (d ! signal) - sl)))
     \<and> (\<exists>r. simulate_signal d stop profit signal (w, m) = Inr r)
     \<and> (\<forall>t \<le> length d. \<exists>r. walk d tp sl ml t (w, m) = Inr r)"
proof -
  have u: "simulate_signal d stop profit signal (w, m) =
      walk d tp sl (Close (d ! signal) - sl) signal (w, m)"
    using assms by (simp add: simulate_signal_unfold)
  have a: "Close (d ! signal) \<ge> tp \<longrightarrow>
            simulate_signal d stop profit signal (w, m) = Inr (w + 1, m + tp)"
    unfolding u using assms(1) by (subst walk.simps) simp
  have b: "\<not> Close (d ! signal) \<ge> tp \<and> Close (d ! signal) \<le> sl \<longrightarrow>
            simulate_signal d stop profit signal (w, m) = Inr (w, m - (Close (d ! signal) - sl))"
    unfolding u using assms(1) by (subst walk.simps) simp
  have c: "\<exists>r. simulate_signal d stop profit signal (w, m) = Inr r"
    using simulate_signal_returns [OF assms(1), of stop profit w m] by blast
  have e: "\<forall>t \<le> length d. \<exists>r. walk d tp sl ml t (w, m) = Inr r"
    using walk_returns [of _ d tp sl ml w m] by blast
  show ?thesis using a b c e by blast
qed

theorem walk_starts_at_signal_witness:
  "simulate_signal frame_win 0.95 1.25 1 (0, 0) = Inr (1, 118.75)
   \<and> simulate_signal frame_drop 0.95 1.25 1 (0, 0) = Inr (0, 5)"
proof -
  have p1: "1 < length frame_win" by (simp add: frame_win_def)
  have p2: "(95::real) = 0.95 * EMA (frame_win ! 1)" by (simp add: frame_win_def)
  have p3: "(118.75::real) = 1.25 * 95" by simp
  have c: "Close (frame_win ! 1) \<ge> 118.75" by (simp add: frame_win_def)
  have "Close (frame_win ! 1) \<ge> 118.75 \<longrightarrow>
      simulate_signal frame_win 0.95 1.25 1 (0, 0) = Inr (0 + 1, 0 + 118.75)"
    using walk_starts_at_signal [OF p1 p2 p3, where w = 0 and m = 0] by (rule conjunct1)
  with c have win: "simulate_signal frame_win 0.95 1.25 1 (0, 0) = Inr (1, 118.75)" by simp
  have q1: "1 < length frame_drop" by (simp add: frame_drop_def)
  have q2: "(95::real) = 0.95 * EMA (frame_drop ! 1)" by (simp add: frame_drop_def)
  have e: "\<not> Close (frame_drop ! 1) \<ge> 118.75 \<and> Close (frame_drop ! 1) \<le> 95"
    by (simp add: frame_drop_def)
  have "\<not> Close (frame_drop ! 1) \<ge> 118.75 \<and> Close (frame_drop ! 1) \<le> 95 \<longrightarrow>
      simulate_signal frame_drop 0.95 1.25 1 (0, 0) = Inr (0, 0 - (Close (frame_drop ! 1) - 95))"
    using walk_starts_at_signal [OF q1 q2 p3, where w = 0 and m = 0]
    by (rule conjunct1 [OF conjunct2])
  with e have "simulate_signal frame_drop 0.95 1.25 1 (0, 0) = Inr (0, 0 - (Close (frame_drop ! 1) - 95))"
    by blast
  then have loss: "simulate_signal frame_drop 0.95 1.25 1 (0, 0) = Inr (0, 5)"
    by (simp add: frame_drop_def)
  show ?thesis using win loss by simp
qed

text \<open>
  Claim C3. A signal whose walk reaches the end of the frame with every close strictly
  between the stop and the target leaves the wins and the money as they were: the loop
  over the signals gives the same result with or without it. The accuracy of the trial
  still divides by the number of all signals, the unresolved one included.
\<close>

theorem unresolved_signal_stays_in_denominator:
  assumes "signal < length d"
    and "\<forall>t. signal \<le> t \<and> t < length d \<longrightarrow>
           \<not> Close (d ! t) \<ge> profit * (stop * EMA (d ! signal))
           \<and> \<not> Close (d ! t) \<le> stop * EMA (d ! signal)"
  shows "simulate_signal d stop profit signal (w, m) = Inr (w, m)
     \<and> for_loop (xs @ signal # ys) (simulate_signal d stop profit) acc =
         for_loop (xs @ ys) (simulate_signal d stop profit) acc
     \<and> (for_loop (xs @ ys) (simulate_signal d stop profit) (0, 0) = Inr (wins, money) \<longrightarrow>
          trial_result d (xs @ signal # ys) stop profit =
            Inr (real wins / real (length xs + 1 + length ys), money))"
proof -
  have same: "simulate_signal d stop profit signal (w', m') = Inr (w', m')" for w' m'
  proof -
    have "simulate_signal d stop profit signal (w', m') =
        walk d (profit * (stop * EMA (d ! signal))) (stop * EMA (d ! signal))
          (Close (d ! signal) - stop * EMA (d ! signal)) signal (w', m')"
      using assms(1) by (simp add: simulate_signal_unfold)
    also have "\<dots> = walk d (profit * (stop * EMA (d ! signal))) (stop * EMA (d ! signal))
          (Close (d ! signal) - stop * EMA (d ! signal)) (length d) (w', m')"
      using assms by (intro walk_skip) auto
    also have "\<dots> = Inr (w', m')"
      by (subst walk.simps) simp
    finally show ?thesis .
  qed
  have skip: "for_loop (xs @ signal # ys) (simulate_signal d stop profit) a =
         for_loop (xs @ ys) (simulate_signal d stop profit) a" for a
    by (cases "for_loop xs (simulate_signal d stop profit) a")
      (auto simp: for_loop_append same)
  have "trial_result d (xs @ signal # ys) stop profit =
            Inr (real wins / real (length xs + 1 + length ys), money)"
    if "for_loop (xs @ ys) (simulate_signal d stop profit) (0, 0) = Inr (wins, money)"
    using that by (simp add: trial_result_def skip)
  then show ?thesis using same skip by blast
qed

theorem unresolved_signal_stays_in_denominator_witness:
  "simulate_signal frame_mixed 0.95 1.25 2 (1, 118.75) = Inr (1, 118.75)
   \<and> for_loop [1, 2] (simulate_signal frame_mixed 0.95 1.25) (0, 0) = Inr (1, 118.75)
   \<and> trial_result frame_mixed [1, 2] 0.95 1.25 = Inr (1 / 2, 118.75)"
proof -
  have len: "(2::nat) < length frame_mixed" by (simp add: frame_mixed_def)
  have und: "\<forall>t. (2::nat) \<le> t \<and> t < length frame_mixed \<longrightarrow>
           \<not> Close (frame_mixed ! t) \<ge> 1.25 * (0.95 * EMA (frame_mixed ! 2))
           \<and> \<not> Close (frame_mixed ! t) \<le> 0.95 * EMA (frame_mixed ! 2)"
  proof (intro allI impI)
    fix t :: nat
    assume "2 \<le> t \<and> t < length frame_mixed"
    then have "t = 2" by (simp add: frame_mixed_def)
    then show "\<not> Close (frame_mixed ! t) \<ge> 1.25 * (0.95 * EMA (frame_mixed ! 2))
           \<and> \<not> Close (frame_mixed ! t) \<le> 0.95 * EMA (frame_mixed ! 2)"
      by (simp add: frame_mixed_def)
  qed
  have one: "for_loop ([1] @ []) (simulate_signal frame_mixed 0.95 1.25) (0, 0) = Inr (1, 118.75)"
    by (simp add: frame_mixed_def eval_defs)
  from unresolved_signal_stays_in_denominator [OF len und, of 1 "118.75" "[1]" "[]" "(0, 0)" 1 "118.75"] one
  show ?thesis by simp
qed

section \<open>The accuracy of a trial\<close>

text \<open>
  Claim C9. For a frame with at least one signal, every trial returns an accuracy between
  0 and 1, for every pair of ratios; the simulation of one signal raises the win count by
  at most one.
\<close>

theorem winrate_in_unit_interval:
  assumes "signals_of d \<noteq> []"
  shows "(\<exists>accuracy money. trial_result d (signals_of d) stop profit = Inr (accuracy, money)
            \<and> 0 \<le> accuracy \<and> accuracy \<le> 1)
     \<and> (\<forall>signal \<in> set (signals_of d). \<exists>w' m'.
           simulate_signal d stop profit signal (w, m) = Inr (w', m') \<and> w \<le> w' \<and> w' \<le> w + 1)"
  using assms trial_result_returns [OF signals_of_in_range assms, of stop profit]
    simulate_signal_returns [of _ d stop profit w m] signals_of_in_range [of d]
  by blast

theorem winrate_in_unit_interval_witness:
  "signals_of frame_mixed \<noteq> []
   \<and> (\<exists>accuracy money. trial_result frame_mixed (signals_of frame_mixed) 0.95 1.25
          = Inr (accuracy, money) \<and> 0 \<le> accuracy \<and> accuracy \<le> 1)"
proof -
  have ne: "signals_of frame_mixed \<noteq> []" by (simp add: signals_frame_mixed)
  from winrate_in_unit_interval [OF ne, of "0.95" "1.25" 0 0] ne show ?thesis by blast
qed

section \<open>What \<^verbatim>\<open>add_data\<close> records\<close>

text \<open>
  Claim C4. When the grid search ends with best accuracy zero, \<^verbatim>\<open>add_data\<close> appends the
  instrument to \<^verbatim>\<open>remove_stocks\<close> and leaves the four outcome lists as they are; when it
  ends with a best accuracy that is not zero, both best ratios are bound and exactly one
  entry is appended to each of the four outcome lists. When no pair of the grid has a
  trial with a win, the best accuracy is zero.
\<close>

theorem add_data_outcome_or_removal:
  assumes "grid_search (get_data (h stock)) (signals_of (get_data (h stock)))
             (stop_ratios self) (profit_ratios self) initial_best = Inr b"
  shows "(greatest_accuracy b = 0 \<longrightarrow>
            add_data h self stock = Inr (self\<lparr>remove_stocks := remove_stocks self @ [stock]\<rparr>))
     \<and> (greatest_accuracy b \<noteq> 0 \<longrightarrow>
          (\<exists>p s. best_profit_ratio b = Some p \<and> best_stop_ratio b = Some s
             \<and> add_data h self stock =
                 Inr (self\<lparr>optimal_profit_ratio := optimal_profit_ratio self @ [p],
                           optimal_risk_ratio := optimal_risk_ratio self @ [s],
                           winrates := winrates self @ [greatest_accuracy b],
                           money_made := money_made self @ [greatest_money b]\<rparr>)))
     \<and> ((\<forall>stop \<in> set (stop_ratios self). \<forall>profit \<in> set (profit_ratios self).
            \<forall>accuracy money.
              trial_result (get_data (h stock)) (signals_of (get_data (h stock))) stop profit
                = Inr (accuracy, money) \<longrightarrow> accuracy = 0)
          \<longrightarrow> greatest_accuracy b = 0)"
proof (intro conjI impI)
  assume "greatest_accuracy b = 0"
  then show "add_data h self stock = Inr (self\<lparr>remove_stocks := remove_stocks self @ [stock]\<rparr>)"
    using assms by (simp add: add_data_unfold record_outcome_def)
next
  assume nz: "greatest_accuracy b \<noteq> 0"
  have "ratios_bound b"
    using assms ratios_bound_initial by (rule grid_search_ratios_bound)
  with nz obtain p s where ps: "best_profit_ratio b = Some p" "best_stop_ratio b = Some s"
    by (auto simp: ratios_bound_def)
  then show "\<exists>p s. best_profit_ratio b = Some p \<and> best_stop_ratio b = Some s
             \<and> add_data h self stock =
                 Inr (self\<lparr>optimal_profit_ratio := optimal_profit_ratio self @ [p],
                           optimal_risk_ratio := optimal_risk_ratio self @ [s],
                           winrates := winrates self @ [greatest_accuracy b],
                           money_made := money_made self @ [greatest_money b]\<rparr>)"
    using assms nz by (simp add: add_data_unfold record_outcome_def)
next
  assume "\<forall>stop \<in> set (stop_ratios self). \<forall>profit \<in> set (profit_ratios self).
            \<forall>accuracy money.
              trial_result (get_data (h stock)) (signals_of (get_data (h stock))) stop profit
                = Inr (accuracy, money) \<longrightarrow> accuracy = 0"
  then show "greatest_accuracy b = 0"
    using grid_search_no_win [OF assms] by (simp add: initial_best_def)
qed

theorem add_data_outcome_or_removal_witness:
  "add_data example_heap (Backtester_init [0, 1]) 0 =
     Inr ((Backtester_init [0, 1])\<lparr>optimal_profit_ratio := [3], optimal_risk_ratio := [1],
                                    winrates := [1], money_made := [300]\<rparr>)
   \<and> add_data example_heap (Backtester_init [0, 1]) 1 =
     Inr ((Backtester_init [0, 1])\<lparr>remove_stocks := [1]\<rparr>)"
proof -
  have g0: "grid_search (get_data (example_heap 0)) (signals_of (get_data (example_heap 0)))
      (stop_ratios (Backtester_init [0, 1])) (profit_ratios (Backtester_init [0, 1])) initial_best =
      Inr \<lparr>greatest_accuracy = 1, greatest_money = 300,
           best_profit_ratio = Some 3, best_stop_ratio = Some 1\<rparr>"
    using grid_frame_win by (simp add: Backtester_init_def)
  have g1: "grid_search (get_data (example_heap 1)) (signals_of (get_data (example_heap 1)))
      (stop_ratios (Backtester_init [0, 1])) (profit_ratios (Backtester_init [0, 1])) initial_best =
      Inr \<lparr>greatest_accuracy = 0, greatest_money = 0,
           best_profit_ratio = Some 3, best_stop_ratio = Some 1\<rparr>"
    using grid_frame_unresolved by (simp add: Backtester_init_def)
  have a: "add_data example_heap (Backtester_init [0, 1]) 0 =
     Inr ((Backtester_init [0, 1])\<lparr>optimal_profit_ratio := [3], optimal_risk_ratio := [1],
                                    winrates := [1], money_made := [300]\<rparr>)"
    using add_data_outcome_or_removal [where h = example_heap and stock = 0, OF g0] by (simp add: Backtester_init_def)
  have b: "add_data example_heap (Backtester_init [0, 1]) 1 =
     Inr ((Backtester_init [0, 1])\<lparr>remove_stocks := [1]\<rparr>)"
    using add_data_outcome_or_removal [where h = example_heap and stock = 1, OF g1] by (simp add: Backtester_init_def)
  show ?thesis using a b by simp
qed

text \<open>
  Claim C6, as stated, fails: \<^verbatim>\<open>add_data\<close> is the grid search and appends the outcome to
  the four outcome lists itself. Here the win rates are \<open>[]\<close> before the call and \<open>[1]\<close>
  after it.
\<close>

theorem add_data_appends_outcome_counterexample:
  "add_data example_heap (Backtester_init [0]) 0 =
     Inr ((Backtester_init [0])\<lparr>optimal_profit_ratio := [3], optimal_risk_ratio := [1],
                                 winrates := [1], money_made := [300]\<rparr>)
   \<and> winrates ((Backtester_init [0])\<lparr>optimal_profit_ratio := [3], optimal_risk_ratio := [1],
                                 winrates := [1], money_made := [300]\<rparr>)
        \<noteq> winrates (Backtester_init [0])"
  using add_data_win [OF has_init_grid_init, of "[0]"] by (simp add: Backtester_init_def)

text \<open>
  Claim C6, amended. \<^verbatim>\<open>add_data\<close> changes neither the tracked instruments nor the two
  ratio lists (nor any instrument: it returns no store). It either appends one entry to
  each of the four outcome lists, or appends the instrument to \<^verbatim>\<open>remove_stocks\<close>;
  removing from the tracked instruments is left to \<^verbatim>\<open>execute\<close>.
\<close>

theorem add_data_frame:
  assumes "add_data h self stock = Inr self'"
  shows "stocks self' = stocks self
     \<and> profit_ratios self' = profit_ratios self
     \<and> stop_ratios self' = stop_ratios self
     \<and> ((\<exists>p s a m. self' = self\<lparr>optimal_profit_ratio := optimal_profit_ratio self @ [p],
                               optimal_risk_ratio := optimal_risk_ratio self @ [s],
                               winrates := winrates self @ [a],
                               money_made := money_made self @ [m]\<rparr>)
         \<or> self' = self\<lparr>remove_stocks := remove_stocks self @ [stock]\<rparr>)"
  using add_data_cases [OF assms] by auto

theorem add_data_frame_witness:
  "add_data example_heap (Backtester_init [0, 1]) 1 = Inr ((Backtester_init [0, 1])\<lparr>remove_stocks := [1]\<rparr>)
   \<and> stocks ((Backtester_init [0, 1])\<lparr>remove_stocks := [1]\<rparr>) = stocks (Backtester_init [0, 1])"
proof -
  have a: "add_data example_heap (Backtester_init [0, 1]) 1 =
      Inr ((Backtester_init [0, 1])\<lparr>remove_stocks := [1]\<rparr>)"
    using add_data_unresolved [OF has_init_grid_init, of "[0, 1]"] by (simp add: Backtester_init_def)
  from add_data_frame [OF a] a show ?thesis by simp
qed

section \<open>A frame with no signal\<close>

text \<open>
  Claim C8, as stated, fails: for a frame with no signal \<^verbatim>\<open>add_data\<close> has no check of
  its own. What is raised is the \<^verbatim>\<open>ZeroDivisionError\<close> of the division on line 98, in the
  first trial.
\<close>

theorem no_signals_counterexample:
  "signals_of (get_data (example_heap 2)) = []
   \<and> add_data example_heap (Backtester_init [2]) 2 = Inl ZeroDivisionError"
  by (simp add: example_heap_def MACD_Strategy_init_def signals_frame_no_signal add_data_unfold
      Backtester_init_def grid_search_def trial_def trial_result_def)

text \<open>
  Claim C8, amended. For an instrument whose frame has no signal, and a grid with at
  least one stop ratio and one profit ratio, \<^verbatim>\<open>add_data\<close> raises \<^verbatim>\<open>ZeroDivisionError\<close>;
  it returns no win rate and appends nothing.
\<close>

theorem no_signals_zero_division:
  assumes "signals_of (get_data (h stock)) = []"
    and "stop_ratios self \<noteq> []" and "profit_ratios self \<noteq> []"
  shows "add_data h self stock = Inl ZeroDivisionError"
proof -
  obtain s ss where s: "stop_ratios self = s # ss" using assms(2) by (cases "stop_ratios self") auto
  obtain p ps where p: "profit_ratios self = p # ps" using assms(3) by (cases "profit_ratios self") auto
  show ?thesis
    by (simp add: add_data_unfold assms(1) s p grid_search_def trial_def trial_result_def)
qed

theorem no_signals_zero_division_witness:
  "signals_of (get_data (example_heap 2)) = []
   \<and> stop_ratios (Backtester_init [2]) \<noteq> [] \<and> profit_ratios (Backtester_init [2]) \<noteq> []
   \<and> add_data example_heap (Backtester_init [2]) 2 = Inl ZeroDivisionError"
proof -
  have a: "signals_of (get_data (example_heap 2)) = []"
    by (simp add: example_heap_def MACD_Strategy_init_def signals_frame_no_signal)
  have b: "stop_ratios (Backtester_init [2]) \<noteq> []" by (simp add: Backtester_init_def)
  have c: "profit_ratios (Backtester_init [2]) \<noteq> []" by (simp add: Backtester_init_def)
  from no_signals_zero_division [where h = example_heap and stock = 2, OF a b c] a b c show ?thesis by simp
qed

section \<open>The lengths of the tracked list and of the outcome lists\<close>

lemma add_data_loop_effect:
  assumes "for_loop xs (\<lambda>stock s. add_data h s stock) s0 = Inr s2"
  shows "stocks s2 = stocks s0
     \<and> (outcomes_aligned s0 \<longrightarrow> outcomes_aligned s2)
     \<and> length (winrates s2) + length (remove_stocks s2) =
         length (winrates s0) + length (remove_stocks s0) + length xs
     \<and> mset (remove_stocks s2) \<subseteq># mset (remove_stocks s0) + mset xs"
  using assms
proof (induction xs arbitrary: s0)
  case Nil
  then show ?case by simp
next
  case (Cons x xs)
  from Cons.prems obtain s1 where 1: "add_data h s0 x = Inr s1"
    and rest: "for_loop xs (\<lambda>stock s. add_data h s stock) s1 = Inr s2"
    by (auto split: sum.splits)
  note ih = Cons.IH [OF rest]
  from add_data_cases [OF 1] show ?case
  proof
    assume "\<exists>p s a m. s1 = s0\<lparr>optimal_profit_ratio := optimal_profit_ratio s0 @ [p],
                               optimal_risk_ratio := optimal_risk_ratio s0 @ [s],
                               winrates := winrates s0 @ [a],
                               money_made := money_made s0 @ [m]\<rparr>"
    then obtain p s a m where e: "s1 = s0\<lparr>optimal_profit_ratio := optimal_profit_ratio s0 @ [p],
                               optimal_risk_ratio := optimal_risk_ratio s0 @ [s],
                               winrates := winrates s0 @ [a],
                               money_made := money_made s0 @ [m]\<rparr>" by blast
    have "mset (remove_stocks s2) \<subseteq># mset (remove_stocks s0) + mset xs"
      using ih e by simp
    moreover have "mset (remove_stocks s0) + mset xs \<subseteq># mset (remove_stocks s0) + mset (x # xs)"
      by simp
    ultimately have "mset (remove_stocks s2) \<subseteq># mset (remove_stocks s0) + mset (x # xs)"
      by (rule subset_mset.order_trans)
    then show ?thesis using ih e by (auto simp: outcomes_aligned_def)
  next
    assume e: "s1 = s0\<lparr>remove_stocks := remove_stocks s0 @ [x]\<rparr>"
    then show ?thesis using ih by (auto simp: outcomes_aligned_def)
  qed
qed

lemma remove_loop_effect:
  assumes "mset rs \<subseteq># mset (stocks s)"
  shows "\<exists>s'. for_loop rs
           (\<lambda>remove s. case py_remove (stocks s) remove of
                          Inl e \<Rightarrow> Inl e
                        | Inr xs \<Rightarrow> Inr (s\<lparr>stocks := xs\<rparr>)) s = Inr s'
         \<and> length (stocks s') + length rs = length (stocks s)
         \<and> optimal_profit_ratio s' = optimal_profit_ratio s
         \<and> optimal_risk_ratio s' = optimal_risk_ratio s
         \<and> winrates s' = winrates s
         \<and> money_made s' = money_made s"
  using assms
proof (induction rs arbitrary: s)
  case Nil
  then show ?case by simp
next
  case (Cons r rs)
  from Cons.prems have mem: "r \<in> set (stocks s)" and sub: "mset rs \<subseteq># mset (remove1 r (stocks s))"
    by (auto simp: insert_subset_eq_iff)
  let ?s1 = "s\<lparr>stocks := remove1 r (stocks s)\<rparr>"
  have "mset rs \<subseteq># mset (stocks ?s1)" using sub by simp
  from Cons.IH [OF this] obtain s' where
    l: "for_loop rs (\<lambda>remove s. case py_remove (stocks s) remove of
                          Inl e \<Rightarrow> Inl e
                        | Inr xs \<Rightarrow> Inr (s\<lparr>stocks := xs\<rparr>)) ?s1 = Inr s'"
    and k: "length (stocks s') + length rs = length (stocks ?s1)"
      "optimal_profit_ratio s' = optimal_profit_ratio s"
      "optimal_risk_ratio s' = optimal_risk_ratio s"
      "winrates s' = winrates s"
      "money_made s' = money_made s"
    by auto
  have "length (stocks ?s1) + 1 = length (stocks s)"
    using mem by (simp add: length_remove1) (metis One_nat_def Suc_pred length_pos_if_in_set)
  then show ?case using l k mem by (simp add: py_remove_def)
qed

lemma execute_aligned:
  assumes "execute h self = Inr self'"
  shows "outcomes_aligned self' \<and> length (stocks self') = length (winrates self')"
proof -
  let ?self1 = "self\<lparr>optimal_profit_ratio := [], optimal_risk_ratio := [],
                       winrates := [], money_made := [], remove_stocks := []\<rparr>"
  from assms obtain self2 where
    a: "for_loop (stocks ?self1) (\<lambda>stock s. add_data h s stock) ?self1 = Inr self2"
    and b: "for_loop (remove_stocks self2)
               (\<lambda>remove s. case py_remove (stocks s) remove of
                              Inl e \<Rightarrow> Inl e
                            | Inr xs \<Rightarrow> Inr (s\<lparr>stocks := xs\<rparr>)) self2 = Inr self'"
    by (auto simp: execute_def Let_def split: sum.splits)
  from add_data_loop_effect [OF a]
  have st: "stocks self2 = stocks self" and al: "outcomes_aligned self2"
    and n: "length (winrates self2) + length (remove_stocks self2) = length (stocks self)"
    and sub: "mset (remove_stocks self2) \<subseteq># mset (stocks self2)"
    by (auto simp: outcomes_aligned_def)
  from remove_loop_effect [OF sub] b
  have "length (stocks self') + length (remove_stocks self2) = length (stocks self2)"
    and "optimal_profit_ratio self' = optimal_profit_ratio self2"
    and "optimal_risk_ratio self' = optimal_risk_ratio self2"
    and "winrates self' = winrates self2"
    and "money_made self' = money_made self2"
    by auto
  then show ?thesis using st al n by (auto simp: outcomes_aligned_def)
qed

lemma py_pop_length: "py_pop xs i = Inr ys \<Longrightarrow> length ys + 1 = length xs"
  by (auto simp: py_pop_def Let_def split: if_splits)

lemma remove_stock_aligned:
  assumes "remove_stock self index = Inr self'" and "outcomes_aligned self"
  shows "outcomes_aligned self' \<and> stocks self' = stocks self
     \<and> length (winrates self') + 1 = length (winrates self)"
proof -
  from assms(1) obtain w p r m where
    "py_pop (winrates self) index = Inr w"
    "py_pop (optimal_profit_ratio self) index = Inr p"
    "py_pop (optimal_risk_ratio self) index = Inr r"
    "py_pop (money_made self) index = Inr m"
    and e: "self' = self\<lparr>winrates := w, optimal_profit_ratio := p,
                         optimal_risk_ratio := r, money_made := m\<rparr>"
    by (auto simp: remove_stock_def split: sum.splits)
  then have "length w + 1 = length (winrates self)"
    "length p + 1 = length (optimal_profit_ratio self)"
    "length r + 1 = length (optimal_risk_ratio self)"
    "length m + 1 = length (money_made self)"
    by (auto dest: py_pop_length)
  then show ?thesis using assms(2) e by (auto simp: outcomes_aligned_def)
qed

lemma add_stock_aligned:
  assumes "add_stock h self stock = Inr (h', self')" and "outcomes_aligned self"
  shows "outcomes_aligned self' \<and> stocks self' = stocks self"
proof -
  from assms(1) obtain s1 where 1: "add_data h self stock = Inr s1" and e: "self' = s1"
    by (auto simp: add_stock_def split: sum.splits)
  from add_data_cases [OF 1] show ?thesis
    using assms(2) e by (auto simp: outcomes_aligned_def)
qed

lemma do_call_aligned:
  assumes "do_call c (h, self) = Inr (h', self')" and "outcomes_aligned self"
  shows "outcomes_aligned self'
     \<and> (c = Execute \<longrightarrow> length (stocks self') = length (winrates self'))"
proof (cases c)
  case (AddStock stock)
  then show ?thesis using assms add_stock_aligned [of h self stock h' self'] by simp
next
  case (RemoveStock index)
  then show ?thesis using assms remove_stock_aligned [of self index self']
    by (auto split: sum.splits)
next
  case Execute
  then show ?thesis using assms execute_aligned [of h self self']
    by (auto split: sum.splits)
qed

lemma run_calls_aligned:
  assumes "for_loop calls do_call (h, self) = Inr (h', self')" and "outcomes_aligned self"
  shows "outcomes_aligned self'"
  using assms
proof (induction calls arbitrary: h self)
  case Nil
  then show ?case by simp
next
  case (Cons c calls)
  from Cons.prems(1) obtain h1 s1 where 1: "do_call c (h, self) = Inr (h1, s1)"
    and rest: "for_loop calls do_call (h1, s1) = Inr (h', self')"
    by (auto split: sum.splits)
  from do_call_aligned [OF 1 Cons.prems(2)] have "outcomes_aligned s1" by simp
  from Cons.IH [OF rest this] show ?case .
qed

lemma has_init_grid_update [simp]:
  "has_init_grid (self\<lparr>optimal_profit_ratio := a\<rparr>) = has_init_grid self"
  "has_init_grid (self\<lparr>optimal_risk_ratio := b\<rparr>) = has_init_grid self"
  "has_init_grid (self\<lparr>winrates := c\<rparr>) = has_init_grid self"
  "has_init_grid (self\<lparr>money_made := d\<rparr>) = has_init_grid self"
  "has_init_grid (self\<lparr>remove_stocks := e\<rparr>) = has_init_grid self"
  "has_init_grid (self\<lparr>stocks := f\<rparr>) = has_init_grid self"
  by (simp_all add: has_init_grid_def)

lemma execute_example_win:
  "execute example_heap (Backtester_init [0]) = Inr after_execute"
proof -
  have s1: "(Backtester_init [0])\<lparr>optimal_profit_ratio := [], optimal_risk_ratio := [],
              winrates := [], money_made := [], remove_stocks := []\<rparr> = Backtester_init [0]"
    by (simp add: Backtester_init_def)
  have st: "stocks (Backtester_init [0]) = [0]" by (simp add: Backtester_init_def)
  have ad: "add_data example_heap (Backtester_init [0]) 0 = Inr after_execute"
    using add_data_win [OF has_init_grid_init, of "[0]"]
    by (simp add: after_execute_def Backtester_init_def)
  have rs: "remove_stocks after_execute = []" by (simp add: after_execute_def Backtester_init_def)
  show ?thesis unfolding execute_def Let_def s1 st by (simp add: ad rs)
qed

lemma execute_example_two:
  "execute example_heap (Backtester_init [0, 1]) = Inr (after_execute\<lparr>remove_stocks := [1]\<rparr>)"
proof -
  let ?m = "(Backtester_init [0, 1])\<lparr>optimal_profit_ratio := [3], optimal_risk_ratio := [1],
              winrates := [1], money_made := [300]\<rparr>"
  have s1: "(Backtester_init [0, 1])\<lparr>optimal_profit_ratio := [], optimal_risk_ratio := [],
              winrates := [], money_made := [], remove_stocks := []\<rparr> = Backtester_init [0, 1]"
    by (simp add: Backtester_init_def)
  have st: "stocks (Backtester_init [0, 1]) = [0, 1]" by (simp add: Backtester_init_def)
  have a0: "add_data example_heap (Backtester_init [0, 1]) 0 = Inr ?m"
    using add_data_win [OF has_init_grid_init, of "[0, 1]"] by (simp add: Backtester_init_def)
  have "has_init_grid ?m" by (simp add: has_init_grid_init)
  from add_data_unresolved [OF this]
  have a1: "add_data example_heap ?m 1 = Inr (?m\<lparr>remove_stocks := [1]\<rparr>)"
    by (simp add: Backtester_init_def)
  have loop: "for_loop [0, 1] (\<lambda>stock s. add_data example_heap s stock) (Backtester_init [0, 1])
      = Inr (?m\<lparr>remove_stocks := [1]\<rparr>)"
    by (simp add: a0 a1 del: One_nat_def)
  have rs: "remove_stocks (?m\<lparr>remove_stocks := [1]\<rparr>) = [1]" by simp
  show ?thesis
    unfolding execute_def Let_def s1 st loop sum.case rs
    by (simp add: py_remove_def after_execute_def Backtester_init_def)
qed

lemma remove_stock_example:
  "remove_stock after_execute 0 = Inr (Backtester_init [0])"
  by (simp add: remove_stock_def py_pop_def after_execute_def Backtester_init_def)

text \<open>
  Claim C5, as stated, fails: \<^verbatim>\<open>remove_stock\<close> pops the four outcome lists only. After
  \<^verbatim>\<open>execute\<close> and \<^verbatim>\<open>remove_stock(0)\<close> on one viable instrument the tracked list still
  has one element and the outcome lists have none.
\<close>

theorem tracked_longer_than_outcomes_counterexample:
  "run_calls [Execute, RemoveStock 0] (example_heap, Backtester_init [0]) =
     Inr (example_heap, Backtester_init [0])
   \<and> length (stocks (Backtester_init [0])) = 1
   \<and> length (winrates (Backtester_init [0])) = 0"
  by (simp add: run_calls_def execute_example_win remove_stock_example)
    (simp add: Backtester_init_def)

text \<open>
  Claim C5, amended. From a state whose four outcome lists have the same length (as
  after construction), after any sequence of \<^verbatim>\<open>add_stock\<close>, \<^verbatim>\<open>remove_stock\<close> and
  \<^verbatim>\<open>execute\<close> calls that returns, the four outcome lists have the same length; when
  the last call is \<^verbatim>\<open>execute\<close>, the tracked list has that length too.
\<close>

theorem outcome_sequences_aligned:
  assumes "outcomes_aligned self" and "run_calls calls (h, self) = Inr (h', self')"
  shows "outcomes_aligned self'
     \<and> (\<forall>cs. calls = cs @ [Execute] \<longrightarrow> length (stocks self') = length (winrates self'))"
proof (intro conjI allI impI)
  show "outcomes_aligned self'"
    using assms run_calls_aligned by (simp add: run_calls_def)
next
  fix cs
  assume c: "calls = cs @ [Execute]"
  with assms(2) obtain h1 s1 where 1: "for_loop cs do_call (h, self) = Inr (h1, s1)"
    and 2: "do_call Execute (h1, s1) = Inr (h', self')"
    by (auto simp: run_calls_def for_loop_append split: sum.splits)
  have "outcomes_aligned s1" using run_calls_aligned [OF 1 assms(1)] .
  from do_call_aligned [OF 2 this] show "length (stocks self') = length (winrates self')"
    by simp
qed

theorem outcome_sequences_aligned_witness:
  "outcomes_aligned (Backtester_init [0, 1])
   \<and> run_calls [Execute] (example_heap, Backtester_init [0, 1]) =
       Inr (example_heap, after_execute\<lparr>remove_stocks := [1]\<rparr>)
   \<and> length (stocks (after_execute\<lparr>remove_stocks := [1]\<rparr>)) =
       length (winrates (after_execute\<lparr>remove_stocks := [1]\<rparr>))"
proof -
  have a: "outcomes_aligned (Backtester_init [0, 1])"
    by (simp add: outcomes_aligned_def Backtester_init_def)
  have r: "run_calls [Execute] (example_heap, Backtester_init [0, 1]) =
       Inr (example_heap, after_execute\<lparr>remove_stocks := [1]\<rparr>)"
    by (simp add: run_calls_def execute_example_two del: One_nat_def)
  from outcome_sequences_aligned [OF a r] a r show ?thesis by simp
qed

section \<open>Adding an instrument\<close>

text \<open>When the search is viable and the caller has put the instrument last in the tracked
  list, \<^verbatim>\<open>add_stock\<close> sets the three values of that instrument to its own outcome.\<close>

lemma add_stock_viable:
  assumes "add_data h self stock = Inr self'"
    and "optimal_profit_ratio self' = optimal_profit_ratio self @ [p]"
    and "optimal_risk_ratio self' = optimal_risk_ratio self @ [s]"
    and "winrates self' = winrates self @ [a]"
    and "stocks self \<noteq> []" and "last (stocks self) = stock"
  shows "add_stock h self stock =
     Inr (h(stock := (h stock)\<lparr>ratio := p, stop_loss_percentage := s, winrate := a\<rparr>), self')"
proof -
  have "stocks self' = stocks self" using add_data_cases [OF assms(1)] by auto
  then show ?thesis
    using assms
    by (simp add: add_stock_def apply_last_def py_last_def set_profit_ratio_def
        set_stop_loss_ratio_def set_winrate_def)
qed

text \<open>
  Claim C7, at an input where the code departs from it. The first instrument is viable
  and \<^verbatim>\<open>execute\<close> records its outcome (profit ratio 3, stop ratio 1, win rate 1). The
  second instrument has no viable pair; adding it leaves the outcome lists as they are,
  and \<^verbatim>\<open>add_stock\<close> then sets its profit ratio and stop ratio to the first instrument's
  outcome (3 and 1 instead of its own 1.5 and 0.95). With no outcome recorded at all, the
  same call raises \<^verbatim>\<open>IndexError\<close>.
\<close>

theorem add_stock_not_viable_takes_last_outcome:
  "execute example_heap (Backtester_init [0]) = Inr after_execute
   \<and> container_add_stock example_heap after_execute 1 =
       Inr (example_heap(1 := (example_heap 1)\<lparr>ratio := 3, stop_loss_percentage := 1, winrate := 1\<rparr>),
            after_execute\<lparr>stocks := [0, 1], remove_stocks := [1]\<rparr>)
   \<and> ratio (example_heap 1) = 1.5
   \<and> stop_loss_percentage (example_heap 1) = 0.95
   \<and> container_add_stock example_heap (Backtester_init []) 1 = Inl IndexError"
proof -
  have g: "has_init_grid (after_execute\<lparr>stocks := stocks after_execute @ [1]\<rparr>)"
    by (simp add: after_execute_def has_init_grid_init)
  have a: "container_add_stock example_heap after_execute 1 =
       Inr (example_heap(1 := (example_heap 1)\<lparr>ratio := 3, stop_loss_percentage := 1, winrate := 1\<rparr>),
            after_execute\<lparr>stocks := [0, 1], remove_stocks := [1]\<rparr>)"
    unfolding container_add_stock_def add_stock_def add_data_unresolved [OF g]
    by (simp add: apply_last_def py_last_def set_profit_ratio_def set_stop_loss_ratio_def
        set_winrate_def after_execute_def Backtester_init_def del: One_nat_def)
  have g0: "has_init_grid ((Backtester_init [])\<lparr>stocks := stocks (Backtester_init []) @ [1]\<rparr>)"
    by (simp add: has_init_grid_init)
  have b: "container_add_stock example_heap (Backtester_init []) 1 = Inl IndexError"
    unfolding container_add_stock_def add_stock_def add_data_unresolved [OF g0]
    by (simp add: apply_last_def py_last_def Backtester_init_def del: One_nat_def)
  have c: "ratio (example_heap 1) = 1.5" "stop_loss_percentage (example_heap 1) = 0.95"
    by (simp_all add: example_heap_def MACD_Strategy_init_def)
  show ?thesis using execute_example_win a b c by simp
qed

end
